theory Spec2Isabelle
  imports Complex_Main
begin

section \<open>Python values shared by the modules\<close>

text \<open>
  An exception is modelled by its class name and the text \<open>str(e)\<close> gives. The type stands
  for instances of Python's \<open>Exception\<close>, the class every handler of the repository
  catches; interpreter-level signals that are not instances of it are not modelled.
\<close>

datatype py_exception = PyException (exc_class: string) (exc_str: string)

text \<open>
  A string is a list of characters, and a character is a code point from 0 to 255 (the
  Latin-1 range), read by \<open>of_char\<close>; text with other code points is outside this type.
  \<open>str.strip()\<close> removes the characters for which \<open>str.isspace\<close> holds. In this
  range they are: tab, line feed, vertical tab, form feed and carriage return (9 to 13), the
  four separators 28 to 31, the space (32), the next-line control (133, hexadecimal 85) and
  the no-break space (160, hexadecimal A0). \<open>str.lower()\<close> maps the capitals \<open>A\<close> to
  \<open>Z\<close> (65 to 90) and the accented capitals 192 to 222, the multiplication sign 215
  excepted, to the letter 32 places further on.
\<close>

definition is_space :: "char \<Rightarrow> bool" where
  "is_space c =
     (let n = (of_char c :: nat)
      in (9 \<le> n \<and> n \<le> 13) \<or> (28 \<le> n \<and> n \<le> 32) \<or> n = 133 \<or> n = 160)"

definition strip :: "string \<Rightarrow> string" where
  "strip s = rev (dropWhile is_space (rev (dropWhile is_space s)))"

definition lower_char :: "char \<Rightarrow> char" where
  "lower_char c =
     (let n = (of_char c :: nat)
      in if (65 \<le> n \<and> n \<le> 90) \<or> (192 \<le> n \<and> n \<le> 222 \<and> n \<noteq> 215)
         then char_of (n + 32) else c)"

definition lower :: "string \<Rightarrow> string" where
  "lower s = map lower_char s"

text \<open>\<open>s.split(sep)\<close> for a one-character separator: empty pieces are kept.\<close>

fun split_char :: "char \<Rightarrow> string \<Rightarrow> string list" where
  "split_char sep [] = [[]]"
| "split_char sep (c # cs) =
     (if c = sep then [] # split_char sep cs
      else (case split_char sep cs of
              [] \<Rightarrow> [[c]]
            | p # ps \<Rightarrow> (c # p) # ps))"

text \<open>\<open>s.endswith(t)\<close> and the substring test \<open>t in s\<close>.\<close>

definition endswith :: "string \<Rightarrow> string \<Rightarrow> bool" where
  "endswith s t = (length t \<le> length s \<and> drop (length s - length t) s = t)"

fun startswith :: "string \<Rightarrow> string \<Rightarrow> bool" where
  "startswith s [] = True"
| "startswith [] (c # t) = False"
| "startswith (d # s) (c # t) = (c = d \<and> startswith s t)"

fun contains :: "string \<Rightarrow> string \<Rightarrow> bool" where
  "contains [] t = (t = [])"
| "contains (c # s) t = (startswith (c # s) t \<or> contains s t)"

text \<open>Decimal rendering of an integer, as an f-string prints it.\<close>

definition digit_char :: "nat \<Rightarrow> char" where
  "digit_char d = char_of (48 + d)"

fun show_nat :: "nat \<Rightarrow> string" where
  "show_nat n = (if n < 10 then [digit_char n] else show_nat (n div 10) @ [digit_char (n mod 10)])"

declare show_nat.simps [simp del]

definition show_int :: "int \<Rightarrow> string" where
  "show_int i = (if i < 0 then CHR ''-'' # show_nat (nat (- i)) else show_nat (nat i))"

section \<open>models.py\<close>

record CompanyAddress =
  street :: "string option"
  city :: string
  state :: string
  zip_code :: "string option"
  country :: "string option"

record CompanyRequest =
  company_name :: string
  address :: CompanyAddress

text \<open>
  \<open>SimpleDomainResponse\<close> has four of the seven fields of \<open>DomainResponse\<close>, under the
  same names; the larger class is modelled as an extension of the smaller one so that both
  keep the field names of the source.
\<close>

record SimpleDomainResponse =
  primary_domain :: "string option"
  confidence_score :: real
  verification_status :: string
  processing_time_ms :: int

record metadata =
  company_name_normalized :: string
  ai_model_used :: string
  search_results_count :: nat
  domain_status :: string
  reasoning :: string

record DomainResponse = SimpleDomainResponse +
  search_queries_used :: "string list"
  domains_considered :: "string list"
  metadata :: metadata

datatype JobStatus = PENDING | PROCESSING | COMPLETED | FAILED

section \<open>csv_processor.py: location parsing\<close>

definition parse_location :: "string option \<Rightarrow> CompanyAddress" where
  "parse_location location_str =
     (case location_str of
        None \<Rightarrow> \<lparr>street = None, city = ''Unknown'', state = ''Unknown'', zip_code = None,
                  country = Some ''US''\<rparr>
      | Some s \<Rightarrow>
          if s = [] then
            \<lparr>street = None, city = ''Unknown'', state = ''Unknown'', zip_code = None,
             country = Some ''US''\<rparr>
          else
            (let parts = map strip (split_char CHR '','' s) in
             if 2 \<le> length parts then
               \<lparr>street = None, city = parts ! 0, state = parts ! 1, zip_code = None,
                country = Some (if 2 < length parts then parts ! 2 else ''US'')\<rparr>
             else if length parts = 1 then
               \<lparr>street = None, city = parts ! 0, state = ''Unknown'', zip_code = None,
                country = Some ''US''\<rparr>
             else
               \<lparr>street = None, city = ''Unknown'', state = ''Unknown'', zip_code = None,
                country = Some ''US''\<rparr>))"


section \<open>searxng_client.py\<close>

text \<open>
  A search hit is a JSON object; the model covers hits whose \<open>title\<close>, \<open>url\<close> and
  \<open>content\<close> entries, when present, are strings (the shape the search backend documents).
  A field is \<open>None\<close> when the key is absent.
\<close>

record hit =
  title :: "string option"
  url :: "string option"
  content :: "string option"

text \<open>
  What \<open>response.json()\<close> gives for a search response: it raises, or it is an object
  whose \<open>results\<close> entry is absent (\<open>None\<close>) or a list of hits.
\<close>

datatype search_body = SearchJsonRaises py_exception | SearchJson "hit list option"

datatype get_outcome = GetRaises py_exception | GetResponse int search_body

datatype head_outcome = HeadRaises py_exception | HeadResponse int

text \<open>The request sent to the chat-completion endpoint: the fields the prompt is built from.\<close>

record ai_request =
  bearer :: string
  model :: string
  prompt_company :: string
  prompt_city :: string
  prompt_state :: string
  prompt_zip :: "string option"
  prompt_results :: "hit list"

text \<open>
  The adjudication object after \<open>json.loads\<close>, read the way the service reads it: each
  field is what \<open>dict.get\<close> returns for the key, \<open>None\<close> when the key is absent (for
  \<open>primary_domain\<close> also when it is \<open>null\<close>). The model covers objects whose entries have
  the types the prompt asks for. A decoded value that is not an object is kept by the name
  of its Python type.
\<close>

record analysis =
  get_primary_domain :: "string option"
  get_confidence_score :: "real option"
  get_reasoning :: "string option"
  get_alternative_domains :: "string list option"

datatype decoded = Decoded_Dict analysis | Decoded_Other string

datatype loads_outcome = JSONDecodeError py_exception | Loaded decoded

text \<open>
  The body of a chat-completion response: \<open>NoContent e\<close> when \<open>response.json()\<close> or the
  lookup \<open>['choices'][0]['message']['content']\<close> raises \<open>e\<close>; \<open>NonStrContent t\<close>
  when the content is a value of Python type \<open>t\<close> other than \<open>str\<close>; \<open>Content s\<close>
  when it is the string \<open>s\<close>.
\<close>

datatype chat_body = NoContent py_exception | NonStrContent string | Content string

datatype post_outcome = PostRaises py_exception | PostResponse int chat_body

datatype event = Get string string | Post ai_request | Head string

text \<open>
  Everything outside the repository that the services call: the HTTP client (each answer may
  depend on the calls made so far), the JSON decoder of the standard library, and the
  wall-clock duration in whole milliseconds that the service measures for a request.
\<close>

record env =
  http_get :: "event list \<Rightarrow> string \<Rightarrow> string \<Rightarrow> get_outcome"
  http_post :: "event list \<Rightarrow> ai_request \<Rightarrow> post_outcome"
  http_head :: "event list \<Rightarrow> string \<Rightarrow> head_outcome"
  json_loads :: "string \<Rightarrow> loads_outcome"
  elapsed_ms :: int

record SearXNGClient =
  base_url :: string
  fallback_instances :: "string list"

definition new_SearXNGClient :: "string \<Rightarrow> SearXNGClient" where
  "new_SearXNGClient u =
     \<lparr>base_url = u, fallback_instances = [''https://searx.org'', ''https://searx.space'']\<rparr>"

text \<open>The slice \<open>xs[:limit]\<close>; a negative limit counts from the end.\<close>

definition slice_to :: "int \<Rightarrow> 'a list \<Rightarrow> 'a list" where
  "slice_to limit xs =
     (if 0 \<le> limit then take (nat limit) xs else take (length xs - nat (- limit)) xs)"

definition perform_search ::
  "env \<Rightarrow> SearXNGClient \<Rightarrow> event list \<Rightarrow> string \<Rightarrow> int \<Rightarrow> (py_exception + hit list) \<times> event list"
where
  "perform_search e c tr query limit =
     (let u = base_url c @ ''/search''; tr' = tr @ [Get u query] in
      case http_get e tr u query of
        GetRaises x \<Rightarrow> (Inl x, tr')
      | GetResponse code body \<Rightarrow>
          if code = 200 then
            (case body of
               SearchJsonRaises x \<Rightarrow> (Inl x, tr')
             | SearchJson r \<Rightarrow>
                 (Inr (slice_to limit (case r of None \<Rightarrow> [] | Some hs \<Rightarrow> hs)), tr'))
          else
            (Inl (PyException ''Exception'' (''SearXNG API returned status '' @ show_int code)),
             tr'))"

text \<open>
  The loop over the fallback instances. Each turn saves \<open>self.base_url\<close>, points it at the
  fallback and searches; the assignment that restores the saved value follows the search
  inside the \<open>try\<close>, so it runs only when the search returns.
\<close>

fun try_fallbacks ::
  "env \<Rightarrow> string list \<Rightarrow> SearXNGClient \<Rightarrow> event list \<Rightarrow> string \<Rightarrow> int
     \<Rightarrow> hit list \<times> SearXNGClient \<times> event list"
where
  "try_fallbacks e [] c tr query limit = ([], c, tr)"
| "try_fallbacks e (fallback_url # rest) c tr query limit =
     (let original_url = base_url c;
          c1 = c\<lparr>base_url := fallback_url\<rparr> in
      case perform_search e c1 tr query limit of
        (Inr result, tr1) \<Rightarrow> (result, c1\<lparr>base_url := original_url\<rparr>, tr1)
      | (Inl fallback_error, tr1) \<Rightarrow> try_fallbacks e rest c1 tr1 query limit)"

definition search ::
  "env \<Rightarrow> SearXNGClient \<Rightarrow> event list \<Rightarrow> string \<Rightarrow> int \<Rightarrow> hit list \<times> SearXNGClient \<times> event list"
where
  "search e c tr query limit =
     (case perform_search e c tr query limit of
        (Inr result, tr1) \<Rightarrow> (result, c, tr1)
      | (Inl x, tr1) \<Rightarrow> try_fallbacks e (fallback_instances c) c tr1 query limit)"

section \<open>domain_enrichment.py\<close>

record DomainEnrichmentService =
  searxng_client :: SearXNGClient
  openrouter_api_key :: string
  ai_model :: string

definition suffixes :: "string list" where
  "suffixes = [''Inc'', ''Corp'', ''Corporation'', ''LLC'', ''Ltd'', ''Limited'', ''Co'', ''Company'']"

definition normalize_company_name :: "string \<Rightarrow> string" where
  "normalize_company_name name =
     strip (foldl (\<lambda>normalized suffix.
                     if endswith normalized (CHR '' '' # suffix)
                     then take (length normalized - length suffix - 1) normalized
                     else normalized)
                  (strip name) suffixes)"

definition dq :: string where
  "dq = [CHR 0x22]"

text \<open>
  The six templates. Python builds the result with \<open>list(set(...))\<close>, whose order is not
  fixed; the model keeps one order without repetitions.
\<close>

definition generate_search_queries :: "string \<Rightarrow> CompanyAddress \<Rightarrow> string list" where
  "generate_search_queries name addr =
     (let normalized_name = normalize_company_name name;
          queries =
            [dq @ normalized_name @ dq @ '' official website'',
             dq @ normalized_name @ dq @ '' '' @ city addr @ '' '' @ state addr @ '' website'',
             dq @ normalized_name @ dq @ '' headquarters website'',
             dq @ normalized_name @ dq @ '' corporate site'',
             normalized_name @ '' '' @ city addr @ '' company website'',
             dq @ name @ dq @ '' official domain'']
      in remdups (filter (\<lambda>q. strip q \<noteq> []) queries))"

definition failure_dict :: "string \<Rightarrow> analysis" where
  "failure_dict why =
     \<lparr>get_primary_domain = None, get_confidence_score = Some 0, get_reasoning = Some why,
      get_alternative_domains = Some []\<rparr>"

definition format_result :: "hit \<Rightarrow> hit" where
  "format_result r =
     \<lparr>title = Some (case title r of None \<Rightarrow> [] | Some t \<Rightarrow> t),
      url = Some (case url r of None \<Rightarrow> [] | Some u \<Rightarrow> u),
      content = Some (take 400 (case content r of None \<Rightarrow> [] | Some t \<Rightarrow> t))\<rparr>"

definition analyze_results_with_ai ::
  "DomainEnrichmentService \<Rightarrow> env \<Rightarrow> event list \<Rightarrow> string \<Rightarrow> CompanyAddress \<Rightarrow> hit list
     \<Rightarrow> decoded \<times> event list"
where
  "analyze_results_with_ai svc e tr name addr search_results =
     (if search_results = [] then
        (Decoded_Dict (failure_dict ''No search results available''), tr)
      else
        (let formatted_results = map format_result (take 25 search_results);
             req = \<lparr>bearer = openrouter_api_key svc, model = ai_model svc,
                    prompt_company = name, prompt_city = city addr, prompt_state = state addr,
                    prompt_zip = zip_code addr, prompt_results = formatted_results\<rparr>;
             tr' = tr @ [Post req] in
         case http_post e tr req of
           PostRaises x \<Rightarrow> (Decoded_Dict (failure_dict (''Error: '' @ exc_str x)), tr')
         | PostResponse code body \<Rightarrow>
             if code = 200 then
               (case body of
                  NoContent x \<Rightarrow> (Decoded_Dict (failure_dict (''Error: '' @ exc_str x)), tr')
                | NonStrContent t \<Rightarrow>
                    (Decoded_Dict (failure_dict
                       (''Error: the JSON object must be str, bytes or bytearray, not '' @ t)),
                     tr')
                | Content s \<Rightarrow>
                    (case json_loads e s of
                       JSONDecodeError x \<Rightarrow>
                         (Decoded_Dict (failure_dict ''Failed to parse AI response''), tr')
                     | Loaded v \<Rightarrow> (v, tr')))
             else
               (Decoded_Dict (failure_dict (''AI API error: '' @ show_int code)), tr')))"

definition verify_domain :: "env \<Rightarrow> event list \<Rightarrow> string \<Rightarrow> string \<times> event list" where
  "verify_domain e tr domain =
     (let https = ''https://'' @ domain; tr1 = tr @ [Head https] in
      case http_head e tr https of
        HeadResponse code \<Rightarrow>
          (if code < 400 then ''verified'' else ''inaccessible'', tr1)
      | HeadRaises x \<Rightarrow>
          (let http = ''http://'' @ domain; tr2 = tr1 @ [Head http] in
           case http_head e tr1 http of
             HeadResponse code \<Rightarrow>
               (if code < 400 then ''http_only'' else ''inaccessible'', tr2)
           | HeadRaises y \<Rightarrow> (''unreachable'', tr2)))"

text \<open>Step 2 of the workflow: every query goes through the client, the hits are concatenated.\<close>

fun search_all ::
  "env \<Rightarrow> SearXNGClient \<Rightarrow> event list \<Rightarrow> string list \<Rightarrow> hit list \<times> SearXNGClient \<times> event list"
where
  "search_all e c tr [] = ([], c, tr)"
| "search_all e c tr (query # rest) =
     (case search e c tr query 10 of
        (results, c1, tr1) \<Rightarrow>
          (case search_all e c1 tr1 rest of
             (others, c2, tr2) \<Rightarrow> (results @ others, c2, tr2)))"

definition sq :: string where
  "sq = [CHR 0x27]"

definition process_company_request ::
  "DomainEnrichmentService \<Rightarrow> env \<Rightarrow> event list \<Rightarrow> CompanyRequest
     \<Rightarrow> (py_exception + DomainResponse) \<times> DomainEnrichmentService \<times> event list"
where
  "process_company_request svc e tr request =
     (let search_queries = generate_search_queries (company_name request) (address request) in
      case search_all e (searxng_client svc) tr search_queries of
        (all_search_results, c1, tr1) \<Rightarrow>
          (let svc1 = svc\<lparr>searxng_client := c1\<rparr> in
           case analyze_results_with_ai svc1 e tr1 (company_name request) (address request)
                  all_search_results of
             (Decoded_Other t, tr2) \<Rightarrow>
               (Inl (PyException ''AttributeError''
                       (sq @ t @ sq @ '' object has no attribute '' @ sq @ ''get'' @ sq)),
                svc1, tr2)
           | (Decoded_Dict domain_analysis, tr2) \<Rightarrow>
               (case (case get_primary_domain domain_analysis of
                        None \<Rightarrow> (''no_domain_found'', tr2)
                      | Some d \<Rightarrow>
                          if d = [] then (''no_domain_found'', tr2)
                          else verify_domain e tr2 d) of
                  (status, tr3) \<Rightarrow>
                    (Inr \<lparr>primary_domain = get_primary_domain domain_analysis,
                          confidence_score =
                            (case get_confidence_score domain_analysis of
                               None \<Rightarrow> 0 | Some s \<Rightarrow> s),
                          verification_status = status,
                          processing_time_ms = elapsed_ms e,
                          search_queries_used = search_queries,
                          domains_considered =
                            (case get_alternative_domains domain_analysis of
                               None \<Rightarrow> [] | Some ds \<Rightarrow> ds),
                          metadata =
                            \<lparr>company_name_normalized =
                               normalize_company_name (company_name request),
                             ai_model_used = ai_model svc1,
                             search_results_count = length all_search_results,
                             domain_status = status,
                             reasoning =
                               (case get_reasoning domain_analysis of
                                  None \<Rightarrow> [] | Some r \<Rightarrow> r)\<rparr>\<rparr>,
                     svc1, tr3))))"


section \<open>csv_processor.py\<close>

text \<open>
  A table as pandas holds it: named columns of cells over a common row index. A cell is a
  missing value, a string, or a number; \<open>dtype_object\<close> says whether pandas gave the
  column the \<open>object\<close> dtype. Column names are pairwise different, as \<open>read_csv\<close>
  makes them.
\<close>

datatype cell = NaN | Str string | IntVal int | FloatVal real

record column =
  cname :: string
  dtype_object :: bool
  cells :: "cell list"

record DataFrame =
  nrows :: nat
  columns :: "column list"

definition names :: "DataFrame \<Rightarrow> string list" where
  "names df = map cname (columns df)"

definition isna :: "cell \<Rightarrow> bool" where
  "isna v = (v = NaN)"

text \<open>
  \<open>str(v)\<close> on a cell. The text Python prints for a float comes from the parameter
  \<open>float_str\<close>.
\<close>

definition py_str :: "(real \<Rightarrow> string) \<Rightarrow> cell \<Rightarrow> string" where
  "py_str float_str v =
     (case v of NaN \<Rightarrow> ''nan'' | Str s \<Rightarrow> s | IntVal i \<Rightarrow> show_int i | FloatVal r \<Rightarrow> float_str r)"

text \<open>Truth value of an optional string: \<open>None\<close> and the empty string are false.\<close>

definition truthy :: "string option \<Rightarrow> bool" where
  "truthy x = (case x of None \<Rightarrow> False | Some s \<Rightarrow> s \<noteq> [])"

record detected =
  company_name_column :: "string option"
  location_column :: "string option"

definition company_name_patterns :: "string list" where
  "company_name_patterns =
     [''company'', ''company_name'', ''name'', ''business_name'',
      ''organization'', ''org'', ''firm'', ''entity'']"

definition location_patterns :: "string list" where
  "location_patterns =
     [''location'', ''address'', ''city'', ''state'', ''country'',
      ''headquarters'', ''hq'', ''region'', ''place'']"

text \<open>The loop over the patterns: the first pattern with a match gives its first match.\<close>

fun first_pattern_match :: "string list \<Rightarrow> string list \<Rightarrow> string option" where
  "first_pattern_match [] cols = None"
| "first_pattern_match (pattern # rest) cols =
     (case filter (\<lambda>col. contains (lower col) pattern) cols of
        [] \<Rightarrow> first_pattern_match rest cols
      | m # ms \<Rightarrow> Some m)"

definition first_text_column :: "DataFrame \<Rightarrow> string option" where
  "first_text_column df =
     map_option cname
       (find (\<lambda>c. dtype_object c \<and> \<not> list_all isna (cells c)) (columns df))"

definition city_cols :: "DataFrame \<Rightarrow> string list" where
  "city_cols df = filter (\<lambda>col. contains (lower col) ''city'') (names df)"

definition state_cols :: "DataFrame \<Rightarrow> string list" where
  "state_cols df =
     filter (\<lambda>col. list_ex (\<lambda>s. contains (lower col) s) [''state'', ''province'', ''region''])
       (names df)"

definition detect_columns :: "DataFrame \<Rightarrow> detected" where
  "detect_columns df =
     (let company_name_col = first_pattern_match company_name_patterns (names df);
          company_name_col =
            (if \<not> truthy company_name_col then
               (case first_text_column df of None \<Rightarrow> company_name_col | Some col \<Rightarrow> Some col)
             else company_name_col);
          location_col = first_pattern_match location_patterns (names df);
          location_col =
            (if \<not> truthy location_col then
               (if city_cols df \<noteq> [] \<and> state_cols df \<noteq> [] then Some ''combined_location''
                else location_col)
             else location_col)
      in \<lparr>company_name_column = company_name_col, location_column = location_col\<rparr>)"

text \<open>\<open>row[col]\<close> for row \<open>i\<close> of the table: a \<open>KeyError\<close> when no column has the name.\<close>

definition row_get :: "DataFrame \<Rightarrow> nat \<Rightarrow> string \<Rightarrow> py_exception + cell" where
  "row_get df i col =
     (case find (\<lambda>c. cname c = col) (columns df) of
        None \<Rightarrow> Inl (PyException ''KeyError'' (sq @ col @ sq))
      | Some c \<Rightarrow> Inr (if i < length (cells c) then cells c ! i else NaN))"

fun join :: "string \<Rightarrow> string list \<Rightarrow> string" where
  "join sep [] = []"
| "join sep [p] = p"
| "join sep (p # q # ps) = p @ sep @ join sep (q # ps)"

text \<open>
  One part of a combined location: the stripped cell under the first of the given columns,
  when there is such a column and the cell is not missing. The columns come from the table
  itself, so the lookup finds them.
\<close>

definition present_part :: "(real \<Rightarrow> string) \<Rightarrow> DataFrame \<Rightarrow> nat \<Rightarrow> string list \<Rightarrow> string list" where
  "present_part float_str df i cols =
     (case cols of
        [] \<Rightarrow> []
      | col # _ \<Rightarrow>
          (case row_get df i col of
             Inr v \<Rightarrow> if isna v then [] else [strip (py_str float_str v)]
           | Inl x \<Rightarrow> []))"

definition prepare_location_string ::
  "(real \<Rightarrow> string) \<Rightarrow> DataFrame \<Rightarrow> nat \<Rightarrow> string \<Rightarrow> py_exception + string option"
where
  "prepare_location_string float_str df i location_col =
     (if location_col = ''combined_location'' then
        (let parts = present_part float_str df i (city_cols df)
                     @ present_part float_str df i (state_cols df)
         in Inr (if parts \<noteq> [] then Some (join '', '' parts) else None))
      else if location_col \<noteq> [] then
        (case row_get df i location_col of
           Inl x \<Rightarrow> Inl x
         | Inr v \<Rightarrow> Inr (if isna v then None else Some (strip (py_str float_str v))))
      else Inr None)"

text \<open>
  The processor is built around a domain service; the model takes what the service's
  \<open>process_company_request\<close> gives for a request as the parameter \<open>domain_service\<close>.
\<close>

definition process_single_row ::
  "(CompanyRequest \<Rightarrow> py_exception + DomainResponse) \<Rightarrow> string \<Rightarrow> string option
     \<Rightarrow> py_exception + SimpleDomainResponse"
where
  "process_single_row domain_service name location =
     (let addr = parse_location location;
          request = \<lparr>company_name = name, address = addr\<rparr> in
      case domain_service request of
        Inr full_response \<Rightarrow>
          Inr \<lparr>primary_domain = primary_domain full_response,
               confidence_score = confidence_score full_response,
               verification_status = verification_status full_response,
               processing_time_ms = processing_time_ms full_response\<rparr>
      | Inl x \<Rightarrow>
          Inr \<lparr>primary_domain = None, confidence_score = 0, verification_status = ''error'',
               processing_time_ms = 0\<rparr>)"

text \<open>
  \<open>df[name] = values\<close>: a column of that name is replaced where it stands, a new name is
  appended on the right.
\<close>

definition set_column :: "column \<Rightarrow> DataFrame \<Rightarrow> DataFrame" where
  "set_column c df =
     (if cname c \<in> set (names df)
      then df\<lparr>columns := map (\<lambda>d. if cname d = cname c then c else d) (columns df)\<rparr>
      else df\<lparr>columns := columns df @ [c]\<rparr>)"

definition domain_cell :: "string option \<Rightarrow> cell" where
  "domain_cell d = (case d of None \<Rightarrow> NaN | Some s \<Rightarrow> Str s)"

text \<open>
  The table \<open>prepare_output_csv\<close> builds before it is written out as text. pandas refuses
  a list of values whose length is not the number of rows.
\<close>

definition prepare_output_csv ::
  "DataFrame \<Rightarrow> SimpleDomainResponse list \<Rightarrow> py_exception + DataFrame"
where
  "prepare_output_csv original_df results =
     (if length results \<noteq> nrows original_df then
        Inl (PyException ''ValueError''
               (''Length of values ('' @ show_nat (length results)
                @ '') does not match length of index ('' @ show_nat (nrows original_df) @ '')''))
      else
        Inr (set_column \<lparr>cname = ''processing_time_ms'', dtype_object = False,
                         cells = map (\<lambda>r. IntVal (processing_time_ms r)) results\<rparr>
            (set_column \<lparr>cname = ''verification_status'', dtype_object = True,
                         cells = map (\<lambda>r. Str (verification_status r)) results\<rparr>
            (set_column \<lparr>cname = ''confidence_score'', dtype_object = False,
                         cells = map (\<lambda>r. FloatVal (confidence_score r)) results\<rparr>
            (set_column \<lparr>cname = ''primary_domain'', dtype_object = True,
                         cells = map (\<lambda>r. domain_cell (primary_domain r)) results\<rparr>
             original_df)))))"

section \<open>job_manager.py\<close>

text \<open>
  The job dictionary. Its \<open>results\<close> entry refers to a Python list: lists live in a
  store, and the entry holds the address of one, so that two names for the same list see
  each other's appends. A date is kept as its ISO text.
\<close>

record job =
  jid :: string
  status :: JobStatus
  progress :: nat
  total :: nat
  created_at :: string
  completed_at :: "string option"
  dataframe :: DataFrame
  detected_columns :: detected
  results :: nat
  errors :: "string list"

record JobStatusResponse =
  resp_job_id :: string
  resp_status :: JobStatus
  resp_progress :: nat
  resp_total :: nat
  resp_completed_at :: "string option"
  download_url :: "string option"
  resp_errors :: "string list"

record JobManager =
  jobs :: "string \<rightharpoonup> job"
  results_cache :: "string \<rightharpoonup> DataFrame"
  store :: "nat \<Rightarrow> SimpleDomainResponse list"
  next_addr :: nat

definition new_JobManager :: JobManager where
  "new_JobManager = \<lparr>jobs = Map.empty, results_cache = Map.empty, store = (\<lambda>a. []), next_addr = 0\<rparr>"

text \<open>\<open>create_job\<close>; the fresh identifier and the current time are given by the caller.\<close>

definition create_job :: "string \<Rightarrow> string \<Rightarrow> DataFrame \<Rightarrow> detected \<Rightarrow> JobManager \<Rightarrow> JobManager" where
  "create_job job_id now df cols m =
     m\<lparr>jobs := (jobs m)(job_id \<mapsto>
          \<lparr>jid = job_id, status = PENDING, progress = 0, total = nrows df, created_at = now,
           completed_at = None, dataframe = df, detected_columns = cols,
           results = next_addr m, errors = []\<rparr>),
       store := (store m)(next_addr m := []),
       next_addr := Suc (next_addr m)\<rparr>"

definition get_job_status :: "JobManager \<Rightarrow> string \<Rightarrow> JobStatusResponse option" where
  "get_job_status m job_id =
     (case jobs m job_id of
        None \<Rightarrow> None
      | Some j \<Rightarrow>
          Some \<lparr>resp_job_id = job_id, resp_status = status j, resp_progress = progress j,
                resp_total = total j, resp_completed_at = completed_at j,
                download_url =
                  (if status j = COMPLETED then Some (''/download/'' @ job_id) else None),
                resp_errors = errors j\<rparr>)"

definition get_result_csv :: "JobManager \<Rightarrow> string \<Rightarrow> DataFrame option" where
  "get_result_csv m job_id =
     (case jobs m job_id of
        None \<Rightarrow> None
      | Some j \<Rightarrow> if status j \<noteq> COMPLETED then None else results_cache m job_id)"

text \<open>The list a status reader finds under the job's \<open>results\<close> entry.\<close>

definition job_results :: "JobManager \<Rightarrow> string \<Rightarrow> SimpleDomainResponse list option" where
  "job_results m job_id = map_option (\<lambda>j. store m (results j)) (jobs m job_id)"

definition update_job :: "string \<Rightarrow> (job \<Rightarrow> job) \<Rightarrow> JobManager \<Rightarrow> JobManager" where
  "update_job job_id f m =
     (case jobs m job_id of
        None \<Rightarrow> m
      | Some j \<Rightarrow> m\<lparr>jobs := (jobs m)(job_id \<mapsto> f j)\<rparr>)"

definition append_result :: "nat \<Rightarrow> SimpleDomainResponse \<Rightarrow> JobManager \<Rightarrow> JobManager" where
  "append_result a r m = m\<lparr>store := (store m)(a := store m a @ [r])\<rparr>"

definition placeholder :: "string \<Rightarrow> SimpleDomainResponse" where
  "placeholder s =
     \<lparr>primary_domain = None, confidence_score = 0, verification_status = s,
      processing_time_ms = 0\<rparr>"

text \<open>What the \<open>try\<close> block of one loop turn comes to before the bookkeeping.\<close>

datatype row_outcome = Empty_Input | Processed SimpleDomainResponse

definition row_outcome_of ::
  "(real \<Rightarrow> string) \<Rightarrow> (CompanyRequest \<Rightarrow> py_exception + DomainResponse) \<Rightarrow> DataFrame
     \<Rightarrow> detected \<Rightarrow> nat \<Rightarrow> py_exception + row_outcome"
where
  "row_outcome_of float_str domain_service df cols i =
     (case (case company_name_column cols of
              None \<Rightarrow> Inl (PyException ''KeyError'' ''None'')
            | Some company_col \<Rightarrow> row_get df i company_col) of
        Inl x \<Rightarrow> Inl x
      | Inr v \<Rightarrow>
          (let name = strip (py_str float_str v) in
           if isna v \<or> name = [] then Inr Empty_Input
           else
             (case (case location_column cols of
                      None \<Rightarrow> Inr None
                    | Some location_col \<Rightarrow>
                        if location_col = [] then Inr None
                        else prepare_location_string float_str df i location_col) of
                Inl x \<Rightarrow> Inl x
              | Inr location \<Rightarrow>
                  (case process_single_row domain_service name location of
                     Inl x \<Rightarrow> Inl x
                   | Inr result \<Rightarrow> Inr (Processed result)))))"

text \<open>
  One turn of the loop of \<open>process_job\<close>, for row \<open>i\<close>. \<open>local\<close> is the address of the
  list held by the local variable \<open>results\<close>.
\<close>

definition process_row ::
  "(real \<Rightarrow> string) \<Rightarrow> (CompanyRequest \<Rightarrow> py_exception + DomainResponse) \<Rightarrow> string \<Rightarrow> nat
     \<Rightarrow> DataFrame \<Rightarrow> detected \<Rightarrow> JobManager \<Rightarrow> nat \<Rightarrow> JobManager"
where
  "process_row float_str domain_service job_id local df cols m i =
     (case row_outcome_of float_str domain_service df cols i of
        Inr Empty_Input \<Rightarrow>
          update_job job_id (\<lambda>j. j\<lparr>progress := progress j + 1\<rparr>)
            (append_result local (placeholder ''empty_input'') m)
      | Inr (Processed result) \<Rightarrow>
          update_job job_id (\<lambda>j. j\<lparr>progress := progress j + 1, results := local\<rparr>)
            (append_result local result m)
      | Inl x \<Rightarrow>
          update_job job_id
            (\<lambda>j. j\<lparr>errors := errors j @ [''Error processing row '' @ show_nat (i + 1) @ '': ''
                                         @ exc_str x],
                   progress := progress j + 1, results := local\<rparr>)
            (append_result local (placeholder ''processing_error'') m))"

text \<open>
  The job once \<open>process_job\<close> has set it to processing and made the empty local list,
  and the state after the first \<open>k\<close> rows have been handled.
\<close>

definition begin_job :: "string \<Rightarrow> JobManager \<Rightarrow> JobManager" where
  "begin_job job_id m =
     (update_job job_id (\<lambda>j. j\<lparr>status := PROCESSING\<rparr>) m)
       \<lparr>store := (store m)(next_addr m := []), next_addr := Suc (next_addr m)\<rparr>"

definition after_rows ::
  "(real \<Rightarrow> string) \<Rightarrow> (CompanyRequest \<Rightarrow> py_exception + DomainResponse) \<Rightarrow> string
     \<Rightarrow> JobManager \<Rightarrow> nat \<Rightarrow> JobManager"
where
  "after_rows float_str domain_service job_id m k =
     (case jobs m job_id of
        None \<Rightarrow> m
      | Some j \<Rightarrow>
          foldl (process_row float_str domain_service job_id (next_addr m) (dataframe j)
                   (detected_columns j))
            (begin_job job_id m) [0..<k])"

definition process_job ::
  "(real \<Rightarrow> string) \<Rightarrow> (CompanyRequest \<Rightarrow> py_exception + DomainResponse) \<Rightarrow> string \<Rightarrow> string
     \<Rightarrow> JobManager \<Rightarrow> JobManager"
where
  "process_job float_str domain_service now job_id m =
     (case jobs m job_id of
        None \<Rightarrow> m
      | Some j \<Rightarrow>
          (let m1 = after_rows float_str domain_service job_id m (nrows (dataframe j)) in
           case prepare_output_csv (dataframe j) (store m1 (next_addr m)) of
             Inr output_csv \<Rightarrow>
               update_job job_id (\<lambda>j. j\<lparr>status := COMPLETED, completed_at := Some now\<rparr>)
                 (m1\<lparr>results_cache := (results_cache m1)(job_id \<mapsto> output_csv)\<rparr>)
           | Inl x \<Rightarrow>
               update_job job_id
                 (\<lambda>j. j\<lparr>status := FAILED,
                        errors := errors j @ [''Job '' @ job_id @ '' failed: '' @ exc_str x]\<rparr>)
                 m1))"


text \<open>The four columns \<open>prepare_output_csv\<close> assigns, in the order it assigns them.\<close>

definition result_columns :: "string list" where
  "result_columns =
     [''primary_domain'', ''confidence_score'', ''verification_status'', ''processing_time_ms'']"

section \<open>Sample collaborators, tables and jobs\<close>

text \<open>Concrete inputs on which the theorems below are evaluated.\<close>

definition refused :: py_exception where
  "refused = PyException ''ConnectError'' ''connection refused''"

definition quiet_env :: env where
  "quiet_env =
     \<lparr>http_get = (\<lambda>tr u q. GetRaises refused),
      http_post = (\<lambda>tr r. PostRaises refused),
      http_head = (\<lambda>tr u. HeadRaises refused),
      json_loads = (\<lambda>s. JSONDecodeError (PyException ''JSONDecodeError'' ''Expecting value'')),
      elapsed_ms = 0\<rparr>"

definition probe_env :: env where
  "probe_env = quiet_env\<lparr>http_head := (\<lambda>tr u.
       if u = ''https://a.example'' then HeadResponse 200
       else if u = ''https://b.example'' then HeadResponse 404
       else if u = ''http://b.example'' then HeadResponse 200
       else if u = ''http://c.example'' then HeadResponse 200
       else if u = ''http://d.example'' then HeadResponse 500
       else HeadRaises refused)\<rparr>"

definition sample_hit :: hit where
  "sample_hit = \<lparr>title = Some ''Acme'', url = Some ''https://acme.example'', content = Some ''Acme home''\<rparr>"

definition second_fallback_env :: env where
  "second_fallback_env = quiet_env\<lparr>http_get := (\<lambda>tr u q.
       if u = ''https://searx.space/search'' then GetResponse 200 (SearchJson (Some [sample_hit]))
       else GetResponse 500 (SearchJsonRaises (PyException ''JSONDecodeError'' ''Expecting value'')))\<rparr>"

definition null_reply_env :: env where
  "null_reply_env = quiet_env
     \<lparr>http_get := (\<lambda>tr u q. GetResponse 200 (SearchJson (Some [sample_hit]))),
      http_post := (\<lambda>tr r. PostResponse 200 (Content ''null'')),
      json_loads := (\<lambda>s. if s = ''null'' then Loaded (Decoded_Other ''NoneType'')
                          else JSONDecodeError (PyException ''JSONDecodeError'' ''Expecting value''))\<rparr>"

definition sample_service :: DomainEnrichmentService where
  "sample_service =
     \<lparr>searxng_client = new_SearXNGClient ''https://searx.be'',
      openrouter_api_key = ''sk-sample'', ai_model = ''moonshotai/kimi-k2''\<rparr>"

definition sample_request :: CompanyRequest where
  "sample_request = \<lparr>company_name = ''Fake Company LLC'', address = parse_location (Some ''Nowhere, XX'')\<rparr>"

definition raising_service :: "CompanyRequest \<Rightarrow> py_exception + DomainResponse" where
  "raising_service request = Inl (PyException ''RuntimeError'' ''engine failure'')"

definition no_domain_service :: "CompanyRequest \<Rightarrow> py_exception + DomainResponse" where
  "no_domain_service request =
     Inr \<lparr>primary_domain = None, confidence_score = 0, verification_status = ''no_domain_found'',
          processing_time_ms = 12, search_queries_used = [], domains_considered = [],
          metadata = \<lparr>company_name_normalized = normalize_company_name (company_name request),
                      ai_model_used = ''moonshotai/kimi-k2'', search_results_count = 0,
                      domain_status = ''no_domain_found'',
                      reasoning = ''No search results available''\<rparr>\<rparr>"

definition no_float :: "real \<Rightarrow> string" where
  "no_float r = ''0.0''"

definition leading_empty_table :: DataFrame where
  "leading_empty_table =
     \<lparr>nrows = 2,
      columns = [\<lparr>cname = ''company'', dtype_object = True, cells = [NaN, Str ''Acme'']\<rparr>,
                 \<lparr>cname = ''city'', dtype_object = True, cells = [Str ''Austin'', Str ''Boston'']\<rparr>]\<rparr>"

definition blank_table :: DataFrame where
  "blank_table =
     \<lparr>nrows = 1,
      columns = [\<lparr>cname = ''company'', dtype_object = True, cells = [Str '' '']\<rparr>,
                 \<lparr>cname = ''city'', dtype_object = True, cells = [Str ''Austin'']\<rparr>]\<rparr>"

definition sample_manager :: JobManager where
  "sample_manager =
     create_job ''job-2'' ''2024-05-01T10:00:05'' blank_table (detect_columns blank_table)
       (create_job ''job-1'' ''2024-05-01T10:00:00'' leading_empty_table
          (detect_columns leading_empty_table) new_JobManager)"

definition plain_table :: DataFrame where
  "plain_table =
     \<lparr>nrows = 2,
      columns = [\<lparr>cname = ''id'', dtype_object = False, cells = [IntVal 1, IntVal 2]\<rparr>,
                 \<lparr>cname = ''x'', dtype_object = True, cells = [Str ''Acme'', Str ''Globex'']\<rparr>]\<rparr>"

definition shadowed_table :: DataFrame where
  "shadowed_table =
     \<lparr>nrows = 2,
      columns = [\<lparr>cname = ''verification_status'', dtype_object = False, cells = [NaN, NaN]\<rparr>,
                 \<lparr>cname = ''x'', dtype_object = True, cells = [Str ''Acme'', Str ''Globex'']\<rparr>]\<rparr>"

definition two_results :: "SimpleDomainResponse list" where
  "two_results = [placeholder ''no_domain_found'', placeholder ''no_domain_found'']"

section \<open>Verification of a domain\<close>

text \<open>
  Claim C1, as the code has it. The HTTPS probe decides alone whenever it returns a
  response: a status code below 400 gives \<open>verified\<close>, a status code of 400 or more gives
  \<open>inaccessible\<close>, and in both cases no HTTP probe is made. Only when the HTTPS probe
  raises (connection error, timeout) is the HTTP probe made: a status code below 400 gives
  \<open>http_only\<close>, 400 or more gives \<open>inaccessible\<close>, and a second raise gives
  \<open>unreachable\<close>. The trace records which probes were made.
\<close>

theorem verify_domain_status:
  "(http_head e tr (''https://'' @ d) = HeadResponse c \<and> c < 400 \<longrightarrow>
      verify_domain e tr d = (''verified'', tr @ [Head (''https://'' @ d)]))
   \<and> (http_head e tr (''https://'' @ d) = HeadResponse c \<and> 400 \<le> c \<longrightarrow>
      verify_domain e tr d = (''inaccessible'', tr @ [Head (''https://'' @ d)]))
   \<and> (http_head e tr (''https://'' @ d) = HeadRaises x
      \<and> http_head e (tr @ [Head (''https://'' @ d)]) (''http://'' @ d) = HeadResponse c
      \<and> c < 400 \<longrightarrow>
      verify_domain e tr d
        = (''http_only'', tr @ [Head (''https://'' @ d), Head (''http://'' @ d)]))
   \<and> (http_head e tr (''https://'' @ d) = HeadRaises x
      \<and> http_head e (tr @ [Head (''https://'' @ d)]) (''http://'' @ d) = HeadResponse c
      \<and> 400 \<le> c \<longrightarrow>
      verify_domain e tr d
        = (''inaccessible'', tr @ [Head (''https://'' @ d), Head (''http://'' @ d)]))
   \<and> (http_head e tr (''https://'' @ d) = HeadRaises x
      \<and> http_head e (tr @ [Head (''https://'' @ d)]) (''http://'' @ d) = HeadRaises y \<longrightarrow>
      verify_domain e tr d
        = (''unreachable'', tr @ [Head (''https://'' @ d), Head (''http://'' @ d)]))"
  by (simp add: verify_domain_def Let_def)

theorem verify_domain_status_witness:
  "verify_domain probe_env [] ''a.example'' = (''verified'', [Head ''https://a.example''])
   \<and> verify_domain probe_env [] ''b.example'' = (''inaccessible'', [Head ''https://b.example''])
   \<and> verify_domain probe_env [] ''c.example''
       = (''http_only'', [Head ''https://c.example'', Head ''http://c.example''])
   \<and> verify_domain probe_env [] ''d.example''
       = (''inaccessible'', [Head ''https://d.example'', Head ''http://d.example''])
   \<and> verify_domain probe_env [] ''e.example''
       = (''unreachable'', [Head ''https://e.example'', Head ''http://e.example''])"
  using verify_domain_status [where e = probe_env and tr = "[]" and d = "''a.example''" and c = 200]
        verify_domain_status [where e = probe_env and tr = "[]" and d = "''b.example''" and c = 404]
        verify_domain_status [where e = probe_env and tr = "[]" and d = "''c.example''" and c = 200
          and x = "refused"]
        verify_domain_status [where e = probe_env and tr = "[]" and d = "''d.example''" and c = 500
          and x = "refused"]
        verify_domain_status [where e = probe_env and tr = "[]" and d = "''e.example''"
          and x = "refused"
          and y = "refused"]
  by (simp add: probe_env_def quiet_env_def)

text \<open>
  The claim as the specification words it sends an HTTPS response with status 400 or more
  on to the HTTP probe. On the code, an HTTPS answer 404 ends the verification with
  \<open>inaccessible\<close> although the HTTP probe would have answered 200, and the trace holds the
  HTTPS probe only.
\<close>

theorem verify_domain_https_error_status_counterexample:
  "http_head probe_env [] ''https://b.example'' = HeadResponse 404
   \<and> http_head probe_env [Head ''https://b.example''] ''http://b.example'' = HeadResponse 200
   \<and> verify_domain probe_env [] ''b.example'' = (''inaccessible'', [Head ''https://b.example''])
   \<and> fst (verify_domain probe_env [] ''b.example'') \<noteq> ''http_only''"
  by (simp add: verify_domain_def probe_env_def quiet_env_def refused_def)

section \<open>The job loop\<close>

text \<open>
  What the loop keeps whatever the rows hold: each row adds one to the progress counter and
  one result to the list held by the local variable, and the total is not touched. After
  \<open>k\<close> rows the counter has grown by \<open>k\<close> and the local list has \<open>k\<close> results.
\<close>

lemma process_row_counts:
  assumes "jobs m job_id = Some j"
  shows "\<exists>j'. jobs (process_row float_str domain_service job_id local df cols m i) job_id = Some j'
              \<and> progress j' = progress j + 1 \<and> total j' = total j"
    and "length (store (process_row float_str domain_service job_id local df cols m i) local)
           = length (store m local) + 1"
  using assms
  by (auto simp: process_row_def update_job_def append_result_def
           split: sum.splits row_outcome.splits)

lemma foldl_process_row_counts:
  "jobs m job_id = Some j \<Longrightarrow>
   \<exists>j'. jobs (foldl (process_row float_str domain_service job_id local df cols) m rows) job_id
           = Some j'
        \<and> progress j' = progress j + length rows \<and> total j' = total j
        \<and> length (store (foldl (process_row float_str domain_service job_id local df cols) m rows)
                     local)
            = length (store m local) + length rows"
proof (induction rows arbitrary: m j)
  case Nil
  then show ?case by simp
next
  case (Cons i rows)
  let ?m = "process_row float_str domain_service job_id local df cols m i"
  from process_row_counts(1) [OF Cons.prems] obtain j1 where
    j1: "jobs ?m job_id = Some j1" "progress j1 = progress j + 1" "total j1 = total j"
    by blast
  have len: "length (store ?m local) = length (store m local) + 1"
    by (rule process_row_counts(2) [OF Cons.prems])
  from Cons.IH [OF j1(1)] j1 len show ?case
    by auto
qed

lemma after_rows_counts:
  assumes "jobs m job_id = Some j"
  shows "\<exists>j'. jobs (after_rows float_str domain_service job_id m k) job_id = Some j'
              \<and> progress j' = progress j + k \<and> total j' = total j
              \<and> length (store (after_rows float_str domain_service job_id m k) (next_addr m)) = k"
proof -
  have b: "jobs (begin_job job_id m) job_id = Some (j\<lparr>status := PROCESSING\<rparr>)"
    using assms by (simp add: begin_job_def update_job_def)
  have s: "store (begin_job job_id m) (next_addr m) = []"
    by (simp add: begin_job_def)
  from foldl_process_row_counts [OF b, of float_str domain_service "next_addr m"
      "dataframe j" "detected_columns j" "[0..<k]"] s assms
  show ?thesis
    by (auto simp: after_rows_def)
qed

text \<open>
  Claim C2 fails on the code. The branch for an empty company name appends to the local list
  and counts the row, but does not store the local list under the job's \<open>results\<close> entry as
  the two other branches do. Until a first row is enriched or fails, the entry still refers
  to the empty list made by \<open>create_job\<close>. For the table whose first company cell is
  missing and whose second is \<open>Acme\<close>, the state a status reader sees while the second row
  is being enriched has progress 1 and a results list of length 0; once the second row is
  done the entry refers to the local list and both are 2. For the table whose only
  company cell is a single space, the completed job has total 1 and a results list of
  length 0.
\<close>

theorem process_job_snapshot_after_leading_empty_row:
  "map_option progress
     (jobs (after_rows no_float no_domain_service ''job-1'' sample_manager 1) ''job-1'') = Some 1
   \<and> map_option length
       (job_results (after_rows no_float no_domain_service ''job-1'' sample_manager 1) ''job-1'')
     = Some 0
   \<and> map_option progress
       (jobs (after_rows no_float no_domain_service ''job-1'' sample_manager 2) ''job-1'') = Some 2
   \<and> map_option length
       (job_results (after_rows no_float no_domain_service ''job-1'' sample_manager 2) ''job-1'')
     = Some 2
   \<and> map_option status
       (jobs (process_job no_float no_domain_service ''2024-05-01T10:01:00'' ''job-2''
                sample_manager) ''job-2'') = Some COMPLETED
   \<and> map_option total
       (jobs (process_job no_float no_domain_service ''2024-05-01T10:01:00'' ''job-2''
                sample_manager) ''job-2'') = Some 1
   \<and> map_option length
       (job_results (process_job no_float no_domain_service ''2024-05-01T10:01:00'' ''job-2''
                       sample_manager) ''job-2'') = Some 0"
  by code_simp

section \<open>Enrichment of one row\<close>

text \<open>
  Claim C3, as the code has it. Whatever exception the domain service raises for the request
  built from the company name and the parsed location, \<open>process_single_row\<close> returns a
  result and raises nothing; the result has no primary domain, confidence 0.0, processing
  time 0 and the verification status \<open>error\<close>.
\<close>

theorem process_single_row_absorbs_exception:
  "domain_service \<lparr>company_name = name, address = parse_location location\<rparr> = Inl x \<Longrightarrow>
   process_single_row domain_service name location
     = Inr \<lparr>primary_domain = None, confidence_score = 0, verification_status = ''error'',
            processing_time_ms = 0\<rparr>"
  by (simp add: process_single_row_def)

theorem process_single_row_absorbs_exception_witness:
  "process_single_row raising_service ''Fake Company LLC'' (Some ''Nowhere, XX'')
     = Inr \<lparr>primary_domain = None, confidence_score = 0, verification_status = ''error'',
            processing_time_ms = 0\<rparr>"
  by (rule process_single_row_absorbs_exception) (simp add: raising_service_def)

text \<open>
  The status the claim names, \<open>processing_error\<close>, is the one the job loop writes for
  its own handler; the handler of \<open>process_single_row\<close> writes \<open>error\<close>.
\<close>

theorem process_single_row_status_counterexample:
  "process_single_row raising_service ''Acme'' (Some ''Austin, TX'')
     = Inr \<lparr>primary_domain = None, confidence_score = 0, verification_status = ''error'',
            processing_time_ms = 0\<rparr>
   \<and> process_single_row raising_service ''Acme'' (Some ''Austin, TX'')
     \<noteq> Inr \<lparr>primary_domain = None, confidence_score = 0,
             verification_status = ''processing_error'', processing_time_ms = 0\<rparr>"
  by (simp add: process_single_row_def raising_service_def)

section \<open>The search client's endpoint\<close>

text \<open>
  Claim C4 fails on the code. The assignment that restores \<open>base_url\<close> runs only after a
  fallback search that returned. When every endpoint fails, the client is left pointing at
  the last fallback; when the first fallback fails and the second answers, the value restored
  is the first fallback, not the primary endpoint the client was built with.
\<close>

theorem search_leaves_fallback_as_base_url:
  "base_url (fst (snd (search quiet_env (new_SearXNGClient ''https://searx.be'') [] ''acme'' 10)))
     = ''https://searx.space''
   \<and> search second_fallback_env (new_SearXNGClient ''https://searx.be'') [] ''acme'' 10
     = ([sample_hit],
        \<lparr>base_url = ''https://searx.org'',
         fallback_instances = [''https://searx.org'', ''https://searx.space'']\<rparr>,
        [Get ''https://searx.be/search'' ''acme'', Get ''https://searx.org/search'' ''acme'',
         Get ''https://searx.space/search'' ''acme''])"
  by code_simp

section \<open>No hits, no adjudication\<close>

lemma perform_search_trace:
  "perform_search e c tr query limit = (r, tr') \<Longrightarrow> tr' = tr @ [Get (base_url c @ ''/search'') query]"
  by (auto simp: perform_search_def Let_def split: get_outcome.splits search_body.splits if_splits)

lemma try_fallbacks_trace:
  "try_fallbacks e fs c tr query limit = (r, c', tr') \<Longrightarrow>
   \<exists>added. tr' = tr @ added \<and> (\<forall>a. Post a \<notin> set added) \<and> (\<forall>u. Head u \<notin> set added)"
proof (induction fs arbitrary: c tr)
  case Nil
  then show ?case by simp
next
  case (Cons f fs)
  obtain res tr1 where ps: "perform_search e (c\<lparr>base_url := f\<rparr>) tr query limit = (res, tr1)"
    by (cases "perform_search e (c\<lparr>base_url := f\<rparr>) tr query limit")
  from perform_search_trace [OF ps] have tr1: "tr1 = tr @ [Get (f @ ''/search'') query]"
    by simp
  show ?case
  proof (cases res)
    case (Inr hits)
    with Cons.prems ps have "tr' = tr1" by (simp add: Let_def)
    with tr1 show ?thesis by simp
  next
    case (Inl x)
    with Cons.prems ps have "try_fallbacks e fs (c\<lparr>base_url := f\<rparr>) tr1 query limit = (r, c', tr')"
      by (simp add: Let_def)
    from Cons.IH [OF this] obtain added where
      "tr' = tr1 @ added" "\<forall>a. Post a \<notin> set added" "\<forall>u. Head u \<notin> set added"
      by blast
    with tr1 have "tr' = tr @ (Get (f @ ''/search'') query # added)
        \<and> (\<forall>a. Post a \<notin> set (Get (f @ ''/search'') query # added))
        \<and> (\<forall>u. Head u \<notin> set (Get (f @ ''/search'') query # added))"
      by simp
    then show ?thesis by blast
  qed
qed

lemma search_trace:
  assumes "search e c tr query limit = (r, c', tr')"
  shows "\<exists>added. tr' = tr @ added \<and> (\<forall>a. Post a \<notin> set added) \<and> (\<forall>u. Head u \<notin> set added)"
proof -
  obtain res tr1 where ps: "perform_search e c tr query limit = (res, tr1)"
    by (cases "perform_search e c tr query limit")
  from perform_search_trace [OF ps] have tr1: "tr1 = tr @ [Get (base_url c @ ''/search'') query]"
    by simp
  show ?thesis
  proof (cases res)
    case (Inr hits)
    with assms ps have "tr' = tr1" by (simp add: search_def)
    with tr1 show ?thesis by simp
  next
    case (Inl x)
    with assms ps have "try_fallbacks e (fallback_instances c) c tr1 query limit = (r, c', tr')"
      by (simp add: search_def)
    from try_fallbacks_trace [OF this] obtain added where
      "tr' = tr1 @ added" "\<forall>a. Post a \<notin> set added" "\<forall>u. Head u \<notin> set added"
      by blast
    with tr1 have "tr' = tr @ (Get (base_url c @ ''/search'') query # added)
        \<and> (\<forall>a. Post a \<notin> set (Get (base_url c @ ''/search'') query # added))
        \<and> (\<forall>u. Head u \<notin> set (Get (base_url c @ ''/search'') query # added))"
      by simp
    then show ?thesis by blast
  qed
qed

lemma search_all_trace:
  "search_all e c tr queries = (r, c', tr') \<Longrightarrow>
   \<exists>added. tr' = tr @ added \<and> (\<forall>a. Post a \<notin> set added) \<and> (\<forall>u. Head u \<notin> set added)"
proof (induction queries arbitrary: c tr r c' tr')
  case Nil
  then show ?case by simp
next
  case (Cons q qs)
  obtain r1 c1 tr1 where s1: "search e c tr q 10 = (r1, c1, tr1)"
    by (cases "search e c tr q 10") auto
  obtain r2 c2 tr2 where s2: "search_all e c1 tr1 qs = (r2, c2, tr2)"
    by (cases "search_all e c1 tr1 qs") auto
  from Cons.prems s1 s2 have eq: "tr' = tr2" by simp
  from search_trace [OF s1] obtain a1 where
    a1: "tr1 = tr @ a1" "\<forall>a. Post a \<notin> set a1" "\<forall>u. Head u \<notin> set a1"
    by blast
  from Cons.IH [OF s2] obtain a2 where
    a2: "tr2 = tr1 @ a2" "\<forall>a. Post a \<notin> set a2" "\<forall>u. Head u \<notin> set a2"
    by blast
  from eq a1 a2 have "tr' = tr @ (a1 @ a2) \<and> (\<forall>a. Post a \<notin> set (a1 @ a2))
      \<and> (\<forall>u. Head u \<notin> set (a1 @ a2))"
    by simp
  then show ?case by blast
qed

text \<open>
  Claim C5. When the searches for all generated queries return no hit in total,
  \<open>process_company_request\<close> returns a response with no primary domain, confidence 0.0
  and verification status \<open>no_domain_found\<close>, and the calls it adds to the trace contain
  no request to the adjudicator endpoint (and no verification probe).
\<close>

theorem no_hits_skips_adjudicator:
  assumes "fst (search_all e (searxng_client svc) tr
                  (generate_search_queries (company_name request) (address request))) = []"
  shows "\<exists>response svc' added.
           process_company_request svc e tr request = (Inr response, svc', tr @ added)
           \<and> primary_domain response = None
           \<and> confidence_score response = 0
           \<and> verification_status response = ''no_domain_found''
           \<and> (\<forall>a. Post a \<notin> set added)
           \<and> (\<forall>u. Head u \<notin> set added)"
proof -
  let ?qs = "generate_search_queries (company_name request) (address request)"
  obtain hits c1 tr1 where sa: "search_all e (searxng_client svc) tr ?qs = (hits, c1, tr1)"
    by (cases "search_all e (searxng_client svc) tr ?qs") auto
  with assms have hits: "hits = []" by simp
  from search_all_trace [OF sa] obtain added where
    added: "tr1 = tr @ added" "\<forall>a. Post a \<notin> set added" "\<forall>u. Head u \<notin> set added"
    by blast
  have "\<exists>response svc'.
          process_company_request svc e tr request = (Inr response, svc', tr1)
          \<and> primary_domain response = None
          \<and> confidence_score response = 0
          \<and> verification_status response = ''no_domain_found''"
    using sa hits
    by (simp add: process_company_request_def Let_def analyze_results_with_ai_def failure_dict_def)
  with added show ?thesis by blast
qed

theorem no_hits_skips_adjudicator_witness:
  "fst (search_all quiet_env (searxng_client sample_service) []
          (generate_search_queries (company_name sample_request) (address sample_request))) = []
   \<and> (\<exists>response svc' added.
         process_company_request sample_service quiet_env [] sample_request
           = (Inr response, svc', [] @ added)
         \<and> primary_domain response = None
         \<and> confidence_score response = 0
         \<and> verification_status response = ''no_domain_found''
         \<and> (\<forall>a. Post a \<notin> set added)
         \<and> (\<forall>u. Head u \<notin> set added))"
proof -
  have h: "fst (search_all quiet_env (searxng_client sample_service) []
          (generate_search_queries (company_name sample_request) (address sample_request))) = []"
    by code_simp
  from h no_hits_skips_adjudicator [OF h] show ?thesis
    by blast
qed

section \<open>Parsing a location\<close>





section \<open>A reply that is not an object\<close>

text \<open>
  Claim C7 fails on the code. \<open>analyze_results_with_ai\<close> degrades a failed call, a status
  other than 200 and a \<open>JSONDecodeError\<close> to a dictionary with no domain, but returns
  whatever \<open>json.loads\<close> decoded without looking at it. When the adjudicator's message is
  the JSON text \<open>null\<close>, the function returns \<open>None\<close>, and \<open>process_company_request\<close>
  raises \<open>AttributeError\<close> at its first \<open>get\<close>.
\<close>

theorem process_company_request_raises_on_null_reply:
  "fst (process_company_request sample_service null_reply_env [] sample_request)
     = Inl (PyException ''AttributeError''
              (sq @ ''NoneType'' @ sq @ '' object has no attribute '' @ sq @ ''get'' @ sq))
   \<and> fst (analyze_results_with_ai sample_service null_reply_env [] ''Fake Company LLC''
            (parse_location (Some ''Nowhere, XX'')) [sample_hit])
     = Decoded_Other ''NoneType''"
  by code_simp

section \<open>Detecting columns in the output table\<close>

lemma names_set_column:
  "names (set_column c df) = (if cname c \<in> set (names df) then names df else names df @ [cname c])"
proof -
  have "map cname (map (\<lambda>d. if cname d = cname c then c else d) (columns df)) = map cname (columns df)"
    by (induction "columns df") auto
  then show ?thesis
    by (simp add: set_column_def names_def)
qed

lemma names_prepare_output_csv:
  assumes "prepare_output_csv df rs = Inr out"
  shows "names out = names df @ filter (\<lambda>n. n \<notin> set (names df)) result_columns"
proof -
  from assms show ?thesis
    by (auto simp: prepare_output_csv_def names_set_column result_columns_def split: if_splits)
qed

lemma result_columns_hold_no_company_pattern:
  "list_all (\<lambda>p. list_all (\<lambda>n. \<not> contains (lower n) p) result_columns) company_name_patterns"
  by code_simp

lemma first_pattern_match_append:
  "list_all (\<lambda>p. list_all (\<lambda>n. \<not> contains (lower n) p) ys) ps \<Longrightarrow>
   first_pattern_match ps (xs @ ys) = first_pattern_match ps xs"
proof (induction ps)
  case Nil
  then show ?case by simp
next
  case (Cons p ps)
  then have "filter (\<lambda>col. contains (lower col) p) ys = []"
    by (auto simp: list_all_iff filter_empty_conv)
  with Cons show ?case by (simp split: list.splits)
qed

lemma columns_prepare_output_csv:
  assumes "prepare_output_csv df rs = Inr out" and "set (names df) \<inter> set result_columns = {}"
  shows "\<exists>extra. columns out = columns df @ extra"
  using assms
  by (auto simp: prepare_output_csv_def set_column_def names_def result_columns_def split: if_splits)

lemma find_append_Some: "find P xs = Some x \<Longrightarrow> find P (xs @ ys) = Some x"
  by (induction xs) (auto split: if_splits)

text \<open>
  Claim C8, as the code has it. None of the four result-column names contains a
  company-name keyword, so the keyword search gives the same answer on the output table as on
  the input table. Hence, for a table with a detected company-name column, detection on the
  table \<open>prepare_output_csv\<close> builds finds the same column whenever that column was found
  by keyword, and also whenever no input column bears one of the four result-column names
  (the four are then appended to the right of the input columns).
\<close>

theorem redetect_company_column:
  assumes out: "prepare_output_csv df rs = Inr out"
    and detected: "truthy (company_name_column (detect_columns df))"
    and appended: "truthy (first_pattern_match company_name_patterns (names df))
                   \<or> set (names df) \<inter> set result_columns = {}"
  shows "company_name_column (detect_columns out) = company_name_column (detect_columns df)"
proof -
  let ?pat = "first_pattern_match company_name_patterns (names df)"
  have "list_all (\<lambda>p. list_all (\<lambda>n. \<not> contains (lower n) p)
                    (filter (\<lambda>n. n \<notin> set (names df)) result_columns)) company_name_patterns"
    using result_columns_hold_no_company_pattern by (auto simp: list_all_iff)
  then have pat: "first_pattern_match company_name_patterns (names out) = ?pat"
    by (simp add: names_prepare_output_csv [OF out] first_pattern_match_append)
  show ?thesis
  proof (cases "truthy ?pat")
    case True
    with pat show ?thesis by (simp add: detect_columns_def Let_def)
  next
    case False
    with appended have disjoint: "set (names df) \<inter> set result_columns = {}" by simp
    from False detected obtain col where col: "first_text_column df = Some col"
      by (cases "first_text_column df") (auto simp: detect_columns_def Let_def)
    from columns_prepare_output_csv [OF out disjoint] obtain extra where
      "columns out = columns df @ extra" by blast
    with col have "first_text_column out = Some col"
      by (auto simp: first_text_column_def find_append_Some)
    with col pat False show ?thesis by (simp add: detect_columns_def Let_def)
  qed
qed

theorem redetect_company_column_witness:
  "company_name_column (detect_columns leading_empty_table) = Some ''company''
   \<and> (case prepare_output_csv leading_empty_table two_results of
         Inl x \<Rightarrow> False
       | Inr out \<Rightarrow> company_name_column (detect_columns out) = Some ''company'')
   \<and> first_pattern_match company_name_patterns (names plain_table) = None
   \<and> company_name_column (detect_columns plain_table) = Some ''x''
   \<and> (case prepare_output_csv plain_table two_results of
         Inl x \<Rightarrow> False
       | Inr out \<Rightarrow> company_name_column (detect_columns out) = Some ''x'')"
proof -
  obtain out where out: "prepare_output_csv leading_empty_table two_results = Inr out"
    by (simp add: prepare_output_csv_def leading_empty_table_def two_results_def)
  have d: "company_name_column (detect_columns leading_empty_table) = Some ''company''"
    by code_simp
  then have t: "truthy (company_name_column (detect_columns leading_empty_table))"
    by (simp add: truthy_def)
  have "truthy (first_pattern_match company_name_patterns (names leading_empty_table))"
    by code_simp
  then have a: "truthy (first_pattern_match company_name_patterns (names leading_empty_table))
           \<or> set (names leading_empty_table) \<inter> set result_columns = {}"
    by simp
  obtain out' where out': "prepare_output_csv plain_table two_results = Inr out'"
    by (simp add: prepare_output_csv_def plain_table_def two_results_def)
  have p: "first_pattern_match company_name_patterns (names plain_table) = None"
    by code_simp
  have d': "company_name_column (detect_columns plain_table) = Some ''x''"
    by code_simp
  then have t': "truthy (company_name_column (detect_columns plain_table))"
    by (simp add: truthy_def)
  have "set (names plain_table) \<inter> set result_columns = {}"
    by (simp add: names_def plain_table_def result_columns_def)
  then have a': "truthy (first_pattern_match company_name_patterns (names plain_table))
           \<or> set (names plain_table) \<inter> set result_columns = {}"
    by simp
  from redetect_company_column [OF out t a] redetect_company_column [OF out' t' a'] d d' p out out'
  show ?thesis
    by simp
qed

text \<open>
  An assignment to a column name the table already has replaces that column where it
  stands. In the table below the first column is named \<open>verification_status\<close> and holds
  no value, so the company-name column is found by the fallback: \<open>x\<close>, the first text
  column. In the output the first column holds the status strings, and the fallback finds
  it instead.
\<close>

theorem redetect_shadowed_counterexample:
  "company_name_column (detect_columns shadowed_table) = Some ''x''
   \<and> (case prepare_output_csv shadowed_table two_results of
         Inl x \<Rightarrow> False
       | Inr out \<Rightarrow> names out = [''verification_status'', ''x'', ''primary_domain'',
                               ''confidence_score'', ''processing_time_ms'']
                   \<and> company_name_column (detect_columns out) = Some ''verification_status'')"
  by code_simp

section \<open>Reading a job\<close>

text \<open>
  Claim C9. \<open>get_result_csv\<close> returns nothing for an unknown job id and for a job whose
  status is pending, processing or failed; for a completed job it returns the cache entry;
  so whenever it returns an artifact, the job exists, is completed, and the artifact is the
  cached one.
\<close>

theorem get_result_csv_only_when_completed:
  "(jobs m job_id = None \<longrightarrow> get_result_csv m job_id = None)
   \<and> (\<forall>j. jobs m job_id = Some j \<and> (status j = PENDING \<or> status j = PROCESSING \<or> status j = FAILED)
          \<longrightarrow> get_result_csv m job_id = None)
   \<and> (\<forall>j. jobs m job_id = Some j \<and> status j = COMPLETED
          \<longrightarrow> get_result_csv m job_id = results_cache m job_id)
   \<and> (\<forall>csv. get_result_csv m job_id = Some csv
          \<longrightarrow> (\<exists>j. jobs m job_id = Some j \<and> status j = COMPLETED)
              \<and> results_cache m job_id = Some csv)"
  by (auto simp: get_result_csv_def split: option.splits if_splits)

theorem get_result_csv_only_when_completed_witness:
  "get_result_csv sample_manager ''job-0'' = None
   \<and> get_result_csv sample_manager ''job-1'' = None
   \<and> get_result_csv
        (process_job no_float no_domain_service ''2024-05-01T10:01:00'' ''job-2'' sample_manager)
        ''job-2''
     = results_cache
        (process_job no_float no_domain_service ''2024-05-01T10:01:00'' ''job-2'' sample_manager)
        ''job-2''
   \<and> get_result_csv
        (process_job no_float no_domain_service ''2024-05-01T10:01:00'' ''job-2'' sample_manager)
        ''job-2'' \<noteq> None"
proof -
  let ?done = "process_job no_float no_domain_service ''2024-05-01T10:01:00'' ''job-2'' sample_manager"
  have unknown: "jobs sample_manager ''job-0'' = None"
    by code_simp
  have "map_option status (jobs sample_manager ''job-1'') = Some PENDING"
    by code_simp
  then obtain j where pending: "jobs sample_manager ''job-1'' = Some j \<and> status j = PENDING"
    by auto
  have "map_option status (jobs ?done ''job-2'') = Some COMPLETED"
    by code_simp
  then obtain k where completed: "jobs ?done ''job-2'' = Some k \<and> status k = COMPLETED"
    by auto
  have cached: "results_cache ?done ''job-2'' \<noteq> None"
    by code_simp
  from get_result_csv_only_when_completed [of sample_manager "''job-0''"] unknown
  have a: "get_result_csv sample_manager ''job-0'' = None"
    by blast
  from get_result_csv_only_when_completed [of sample_manager "''job-1''"] pending
  have b: "get_result_csv sample_manager ''job-1'' = None"
    by blast
  from get_result_csv_only_when_completed [of ?done "''job-2''"] completed
  have c: "get_result_csv ?done ''job-2'' = results_cache ?done ''job-2''"
    by blast
  from a b c cached show ?thesis
    by simp
qed

text \<open>
  Claim C10. \<open>get_job_status\<close> returns nothing for an unknown job id; for an existing job
  it returns a snapshot whose \<open>download_url\<close> is set exactly when the job's status is
  completed.
\<close>

theorem get_job_status_download_url:
  "(jobs m job_id = None \<longrightarrow> get_job_status m job_id = None)
   \<and> (\<forall>j. jobs m job_id = Some j \<longrightarrow>
        (\<exists>r. get_job_status m job_id = Some r
             \<and> (download_url r \<noteq> None \<longleftrightarrow> status j = COMPLETED)
             \<and> resp_status r = status j))"
  by (simp add: get_job_status_def)

theorem get_job_status_download_url_witness:
  "get_job_status sample_manager ''job-0'' = None
   \<and> map_option download_url (get_job_status sample_manager ''job-1'') = Some None
   \<and> map_option download_url
        (get_job_status
           (process_job no_float no_domain_service ''2024-05-01T10:01:00'' ''job-2'' sample_manager)
           ''job-2'')
     = Some (Some ''/download/job-2'')"
proof -
  let ?done = "process_job no_float no_domain_service ''2024-05-01T10:01:00'' ''job-2'' sample_manager"
  have unknown: "jobs sample_manager ''job-0'' = None"
    by code_simp
  have "map_option status (jobs sample_manager ''job-1'') = Some PENDING"
    by code_simp
  then obtain j where pending: "jobs sample_manager ''job-1'' = Some j" "status j = PENDING"
    by auto
  have "map_option status (jobs ?done ''job-2'') = Some COMPLETED"
    by code_simp
  then obtain k where completed: "jobs ?done ''job-2'' = Some k" "status k = COMPLETED"
    by auto
  from get_job_status_download_url [of sample_manager "''job-0''"] unknown
  have a: "get_job_status sample_manager ''job-0'' = None"
    by blast
  from get_job_status_download_url [of sample_manager "''job-1''"] pending
  obtain r where r: "get_job_status sample_manager ''job-1'' = Some r" "download_url r = None"
    by auto
  from get_job_status_download_url [of ?done "''job-2''"] completed
  obtain q where q: "get_job_status ?done ''job-2'' = Some q" "download_url q \<noteq> None"
    by auto
  have url: "map_option download_url (get_job_status ?done ''job-2'') = Some (Some ''/download/job-2'')"
    by (simp add: get_job_status_def completed)
  from a r url show ?thesis
    by simp
qed

end
